theory Spec2Isabelle
  imports Main "HOL-Library.Word" "HOL-Library.Char_ord" "HOL-Library.List_Lexorder"
    "HOL-Library.Sublist"
begin

section \<open>The data object handle of icoscp/cpb/dobj.py\<close>

text \<open>
  The class \<^verbatim>\<open>Dobj\<close> is embedded as a record of its attributes and its methods as
  functions that take the handle and return the outcome of the call together with the
  handle as the call leaves it. An exception is a value \<open>Inl e\<close>; the handle returned
  beside it holds the assignments made before the exception was raised.

  The collaborators that are not part of the class (the SPARQL endpoint, the file system,
  the two HTTP endpoints, \<^verbatim>\<open>re.match\<close> and the type mapping table \<^verbatim>\<open>dtype_dict\<close>) are
  the fields of a record \<open>env\<close>; every request sent to one of them is appended to the
  field \<open>requests\<close> of the handle, which exists only in the model.
\<close>

subsection \<open>Errors\<close>

datatype error =
    AttributeError
  | IndexError
  | KeyError
  | TypeError
  | UnboundLocalError
  | ValueError
  | StructError
  | ConnectionError
  | Exception string

subsection \<open>Strings\<close>

definition is_space :: "char \<Rightarrow> bool" where
  "is_space c \<longleftrightarrow> c \<in> set [CHR '' '', CHR 0x09, CHR 0x0A, CHR 0x0B, CHR 0x0C, CHR 0x0D,
     CHR 0x1C, CHR 0x1D, CHR 0x1E, CHR 0x1F]"

definition strip :: "string \<Rightarrow> string" where
  "strip s = rev (dropWhile is_space (rev (dropWhile is_space s)))"

text \<open>\<^verbatim>\<open>s.split(sep)\<close> for a one-character separator: always at least one piece.\<close>

fun split_on :: "char \<Rightarrow> string \<Rightarrow> string list" where
  "split_on sep [] = [[]]"
| "split_on sep (c # cs) =
     (if c = sep then [] # split_on sep cs
      else (case split_on sep cs of
              [] \<Rightarrow> [[c]]
            | p # ps \<Rightarrow> (c # p) # ps))"

text \<open>\<^verbatim>\<open>s.split('/')[-1]\<close>.\<close>

definition last_segment :: "string \<Rightarrow> string" where
  "last_segment s = last (split_on CHR ''/'' s)"

text \<open>\<^verbatim>\<open>str.upper\<close> on ASCII letters; other characters are left as they are.\<close>

definition upper_char :: "char \<Rightarrow> char" where
  "upper_char c =
     (let n = (of_char c :: nat)
      in if 97 \<le> n \<and> n \<le> 122 then char_of (n - 32) else c)"

definition upper :: "string \<Rightarrow> string" where
  "upper s = map upper_char s"

text \<open>\<^verbatim>\<open>xs.index(x)\<close> for an \<open>x\<close> known to occur: the first position.\<close>

fun index_of :: "'a \<Rightarrow> 'a list \<Rightarrow> nat" where
  "index_of x [] = 0"
| "index_of x (y # ys) = (if x = y then 0 else Suc (index_of x ys))"

subsection \<open>Metadata tables\<close>

text \<open>
  The cell \<^verbatim>\<open>columnNames\<close> of the first metadata table is null, the string returned by
  the query, or (after \<^verbatim>\<open>__getPayload\<close> has cleaned it) a list of names.
\<close>

datatype colnames = Null | Str string | Lst "string list"

record info1_row =
  dobj_uri :: string
  objSpec :: string
  nRows :: nat
  columnNames :: colnames

record info2_row =
  colName :: string
  valFormat :: string
  isRegex :: "string option"
  objFormat :: string

record info3_row =
  stationName :: string
  latitude :: string
  longitude :: string
  elevation :: string

text \<open>A pandas frame whose rows carry index labels: the label and the row.\<close>

type_synonym info2_frame = "(nat \<times> info2_row) list"

subsection \<open>Binary layout\<close>

type_synonym byte = "8 word"

text \<open>
  Modelled from the spec: the module \<^verbatim>\<open>icoscp.cpb.dtype_dict\<close> is not among the
  sources. \<^verbatim>\<open>structTypes(kind, n)\<close> is the token "\<open>n\<close> repeats of the primitive's wire
  width", kept here as the pair of the repeat count and the width in bytes, and
  \<^verbatim>\<open>structEndian\<close> is the one endianness marker in front of the tokens. The width of a
  decode kind is a field of \<open>env\<close>.
\<close>

type_synonym struct_fmt = "string \<times> (nat \<times> nat) list"

definition calcsize :: "struct_fmt \<Rightarrow> nat" where
  "calcsize fmt = sum_list (map (\<lambda>(n, w). n * w) (snd fmt))"

fun chunks :: "nat \<Rightarrow> nat \<Rightarrow> byte list \<Rightarrow> byte list list" where
  "chunks 0 w bs = []"
| "chunks (Suc n) w bs = take w bs # chunks n w (drop w bs)"

fun unpack_tokens :: "(nat \<times> nat) list \<Rightarrow> byte list \<Rightarrow> byte list list" where
  "unpack_tokens [] bs = []"
| "unpack_tokens ((n, w) # ts) bs = chunks n w bs @ unpack_tokens ts (drop (n * w) bs)"

text \<open>
  \<^verbatim>\<open>struct.unpack_from(fmt, buffer)\<close>: the buffer must hold at least the bytes the
  format asks for; the scalars are read from its front. A scalar is kept as the bytes it
  is read from: the numeric value of a float or an integer is outside the model.
\<close>

definition unpack_from :: "struct_fmt \<Rightarrow> byte list \<Rightarrow> error + byte list list" where
  "unpack_from fmt raw =
     (if length raw < calcsize fmt then Inl StructError
      else Inr (unpack_tokens (snd fmt) raw))"

subsection \<open>Decoded tables\<close>

text \<open>
  A cell is a number as read, a character made from an unsigned 16 bit number
  (\<^verbatim>\<open>chr(i)\<close>), or the result of one of the three pandas conversions, which stay
  uninterpreted.
\<close>

datatype cell =
    Num "byte list"
  | Chr "byte list"
  | Datetime_ms cell
  | Datetime_D cell
  | Time_of_day cell

text \<open>A data frame: the columns in order, each with its name; names are unique.\<close>

type_synonym dataframe = "(string \<times> cell list) list"

text \<open>\<^verbatim>\<open>df.empty\<close>: no column or no row.\<close>

definition df_empty :: "dataframe \<Rightarrow> bool" where
  "df_empty df = (case df of [] \<Rightarrow> True | (k, v) # rest \<Rightarrow> v = [])"

text \<open>
  \<^verbatim>\<open>df[k] = v\<close>: the first column fixes the number of rows, a later column of another
  length is refused, an existing name is overwritten in place.
\<close>

definition df_setitem :: "string \<Rightarrow> cell list \<Rightarrow> dataframe \<Rightarrow> error + dataframe" where
  "df_setitem k v df =
     (case df of
        [] \<Rightarrow> Inr [(k, v)]
      | (k0, v0) # rest \<Rightarrow>
          if length v \<noteq> length v0 then Inl ValueError
          else if k \<in> set (map fst df)
            then Inr (map (\<lambda>(k', v'). if k' = k then (k', v) else (k', v')) df)
            else Inr (df @ [(k, v)]))"

text \<open>\<^verbatim>\<open>df[names]\<close> with a list of names: every name must be a column.\<close>

fun df_select :: "string list \<Rightarrow> dataframe \<Rightarrow> error + dataframe" where
  "df_select [] df = Inr []"
| "df_select (k # ks) df =
     (case map_of df k of
        None \<Rightarrow> Inl KeyError
      | Some v \<Rightarrow> (case df_select ks df of
                    Inl e \<Rightarrow> Inl e
                  | Inr cols \<Rightarrow> Inr ((k, v) # cols)))"

definition df_convert :: "string \<Rightarrow> (cell \<Rightarrow> cell) \<Rightarrow> dataframe \<Rightarrow> dataframe" where
  "df_convert k f df = map (\<lambda>(k', v). if k' = k then (k', map f v) else (k', v)) df"

subsection \<open>Collaborators\<close>

text \<open>A row of the first metadata query as the endpoint returns it.\<close>

record info1_query_row =
  q_dobj :: string
  q_objSpec :: string
  q_nRows :: nat
  q_columnNames :: "string option"

definition as_info1 :: "info1_query_row \<Rightarrow> info1_row" where
  "as_info1 q =
     \<lparr>dobj_uri = q_dobj q, objSpec = q_objSpec q, nRows = q_nRows q,
      columnNames = (case q_columnNames q of None \<Rightarrow> Null | Some cl \<Rightarrow> Str cl)\<rparr>"

text \<open>The body of the request to the remote payload endpoint (\<^verbatim>\<open>self._json\<close>).\<close>

record json_payload =
  tableId :: string
  schema_columns :: "string list"
  schema_size :: nat
  columnNumbers :: "nat list"
  subFolder :: string

text \<open>The body of the usage accounting request.\<close>

record counter =
  objId :: string
  counter_columns :: "string list"
  internal :: "bool option"

datatype http_result = No_response | Response nat "byte list"

datatype event =
    Query_cpbGetInfo string
  | Query_cpbGetSchemaDetail string
  | Query_citation string
  | Query_dobjStation string
  | Read_file string
  | Post_tabular "json_payload option"
  | Post_portaluse counter

text \<open>
  \<open>structTypes\<close> gives the wire width of a decode kind (no width: the call raises),
  \<open>mapDataTypesCP\<close> the decode kind of a declared format (none: the call raises),
  \<open>localfiles\<close> the content of a path that is a file, \<open>post_portaluse\<close> whether the
  usage accounting request returns a response at all (of any status).
\<close>

record env =
  cpbGetInfo :: "string \<Rightarrow> info1_query_row list"
  cpbGetSchemaDetail :: "string \<Rightarrow> info2_row list"
  get_icos_citation :: "string \<Rightarrow> string list"
  dobjStation :: "string \<Rightarrow> info3_row list"
  re_match :: "string \<Rightarrow> string \<Rightarrow> bool"
  mapDataTypesCP :: "string \<Rightarrow> string option"
  structTypes :: "string \<Rightarrow> nat option"
  localfiles :: "string \<Rightarrow> byte list option"
  post_tabular :: "json_payload option \<Rightarrow> http_result"
  post_portaluse :: "counter \<Rightarrow> bool"

subsection \<open>The handle\<close>

text \<open>
  The attributes of \<^verbatim>\<open>Dobj\<close>, without the leading underscore. \<^verbatim>\<open>_info1\<close>,
  \<^verbatim>\<open>_info2\<close> and \<^verbatim>\<open>_info3\<close> start as \<^verbatim>\<open>None\<close> and are read only after a
  query has filled them; they start here as empty tables. \<^verbatim>\<open>_dobj\<close> does not exist
  until an identifier is assigned.
\<close>

record Dobj =
  colSelected :: "nat list option"
  endian :: string
  dtconvert :: bool
  info1 :: "info1_row list"
  info2 :: info2_frame
  info3 :: "info3_row list"
  colSchema :: "string list"
  dtypeStruct :: "struct_fmt option"
  json :: "json_payload option"
  server :: string
  localpath :: string
  islocal :: "bool option"
  dobjSet :: bool
  dobjValid :: bool
  citation :: "string option"
  licence :: "string option"
  data :: dataframe
  datapersistent :: bool
  dobj :: "string option"
  requests :: "event list"

definition new_Dobj :: Dobj where
  "new_Dobj =
     \<lparr>colSelected = None, endian = ''big'', dtconvert = True, info1 = [], info2 = [],
      info3 = [], colSchema = [], dtypeStruct = None, json = None,
      server = ''https://data.icos-cp.eu/portal/tabular'',
      localpath = ''/data/dataAppStorage/'', islocal = None, dobjSet = False,
      dobjValid = False, citation = None, licence = None, data = [],
      datapersistent = True, dobj = None, requests = []\<rparr>"

text \<open>The property \<^verbatim>\<open>colNames\<close>.\<close>

definition colNames :: "Dobj \<Rightarrow> string list option" where
  "colNames s = (if dobjValid s then Some (map (\<lambda>(l, r). colName r) (info2 s)) else None)"

subsection \<open>Schema resolution: \<^verbatim>\<open>__getPayload\<close>, lines 211 to 255\<close>

definition enumerate :: "'a list \<Rightarrow> (nat \<times> 'a) list" where
  "enumerate xs = zip [0 ..< length xs] xs"

text \<open>Lines 219 to 225: the bracketed, quoted, comma separated list of names.\<close>

definition clean_colList :: "string \<Rightarrow> string list" where
  "clean_colList cl =
     map strip (split_on CHR '','' (filter (\<lambda>c. c \<noteq> CHR 0x22) (butlast (tl cl))))"

text \<open>
  Lines 234 to 242: for every pattern row, in order, and every realized name, in order,
  a match appends a copy of the pattern row that carries the name and is no longer
  flagged. The two assignments through \<^verbatim>\<open>row.loc[...]\<close> are taken to reach the row
  that is appended, as the code needs them to.
\<close>

definition regex_rows :: "(string \<Rightarrow> string \<Rightarrow> bool) \<Rightarrow> info2_row list \<Rightarrow> string list \<Rightarrow> info2_row list" where
  "regex_rows m regexrow colList =
     concat (map (\<lambda>r. map (\<lambda>c. r\<lparr>colName := c, isRegex := None\<rparr>)
                            (filter (m (colName r)) colList)) regexrow)"

text \<open>
  Lines 231 to 245. \<^verbatim>\<open>pd.concat(..., ignore_index=True)\<close> numbers the rows anew from
  0; the filter of line 245 keeps the labels of the rows it keeps.
\<close>

definition expand_regex :: "(string \<Rightarrow> string \<Rightarrow> bool) \<Rightarrow> string list \<Rightarrow> info2_frame \<Rightarrow> info2_frame" where
  "expand_regex m colList frame =
     (if list_all (\<lambda>(l, r). isRegex r = None) frame then frame
      else
        let regexrow = filter (\<lambda>r. isRegex r = Some ''true'') (map snd frame);
            new = regex_rows m regexrow colList;
            frame' = (if new = [] then frame else enumerate (map snd frame @ new))
        in filter (\<lambda>(l, r). isRegex r \<noteq> Some ''true'') frame')"

text \<open>\<^verbatim>\<open>frame.drop(i)\<close>: the rows labelled \<open>i\<close> go; no such label is a KeyError.\<close>

definition drop_label :: "nat \<Rightarrow> info2_frame \<Rightarrow> error + info2_frame" where
  "drop_label i frame =
     (if i \<in> set (map fst frame) then Inr (filter (\<lambda>(l, r). l \<noteq> i) frame)
      else Inl KeyError)"

text \<open>
  Lines 249 to 251: the loop runs over the positions and names of the frame as it is
  when the loop starts, and drops by label from the frame as it is now.
\<close>

fun drop_absent :: "string list \<Rightarrow> (nat \<times> string) list \<Rightarrow> info2_frame \<Rightarrow> (error + unit) \<times> info2_frame" where
  "drop_absent colList [] frame = (Inr (), frame)"
| "drop_absent colList ((i, c) # rest) frame =
     (if c \<in> set colList then drop_absent colList rest frame
      else (case drop_label i frame of
              Inl e \<Rightarrow> (Inl e, frame)
            | Inr frame' \<Rightarrow> drop_absent colList rest frame'))"

definition resolve_columns :: "env \<Rightarrow> string option \<Rightarrow> Dobj \<Rightarrow> (error + unit) \<times> Dobj" where
  "resolve_columns env cn s =
     (case cn of
        None \<Rightarrow> (Inr (), s)
      | Some cl \<Rightarrow>
          let colList = clean_colList cl;
              s1 = s\<lparr>info1 := (case info1 s of [] \<Rightarrow> []
                                 | row0 # rows \<Rightarrow> row0\<lparr>columnNames := Lst colList\<rparr> # rows)\<rparr>;
              s2 = s1\<lparr>info2 := expand_regex (re_match env) colList (info2 s1)\<rparr>;
              (r, frame) = drop_absent colList
                             (enumerate (map (\<lambda>(l, r). colName r) (info2 s2))) (info2 s2)
          in (r, s2\<lparr>info2 := frame\<rparr>))"

subsection \<open>Plan building: \<^verbatim>\<open>__getPayload\<close>, lines 257 to 294\<close>

text \<open>Lines 264 to 269; \<^verbatim>\<open>self._colSchema\<close> grows while the loop runs.\<close>

fun map_types :: "(string \<Rightarrow> string option) \<Rightarrow> string list \<Rightarrow> string list \<Rightarrow> (error + unit) \<times> string list" where
  "map_types f [] acc = (Inr (), acc)"
| "map_types f (v # vs) acc =
     (case f v of
        None \<Rightarrow> (Inl (Exception ''dtype_dict''), acc)
      | Some k \<Rightarrow> map_types f vs (acc @ [k]))"

text \<open>Lines 271 to 273: one token per selected column, read by position.\<close>

fun struct_tokens :: "(string \<Rightarrow> nat option) \<Rightarrow> string list \<Rightarrow> nat \<Rightarrow> nat list \<Rightarrow> error + (nat \<times> nat) list" where
  "struct_tokens st schema n [] = Inr []"
| "struct_tokens st schema n (d # ds) =
     (if d < length schema then
        (case st (schema ! d) of
           None \<Rightarrow> Inl TypeError
         | Some w \<Rightarrow> (case struct_tokens st schema n ds of
                        Inl e \<Rightarrow> Inl e
                      | Inr ts \<Rightarrow> Inr ((n, w) # ts)))
      else Inl IndexError)"

definition build_plan :: "env \<Rightarrow> string \<Rightarrow> info1_query_row \<Rightarrow> Dobj \<Rightarrow> (error + unit) \<times> Dobj" where
  "build_plan env pid q0 s =
     (let s1 = (if colSelected s = None \<or> colSelected s = Some []
                then s\<lparr>colSelected := Some [0 ..< length (info2 s)]\<rparr> else s);
          (r, schema) = map_types (mapDataTypesCP env) (map (\<lambda>(l, r). valFormat r) (info2 s1)) [];
          s2 = s1\<lparr>colSchema := schema\<rparr>
      in case r of
           Inl e \<Rightarrow> (Inl e, s2)
         | Inr u \<Rightarrow>
            (case struct_tokens (structTypes env) schema (q_nRows q0)
                    (case colSelected s2 of None \<Rightarrow> [] | Some ds \<Rightarrow> ds) of
               Inl e \<Rightarrow> (Inl e, s2)
             | Inr toks \<Rightarrow>
                 let s3 = s2\<lparr>dtypeStruct := Some (endian s2, toks)\<rparr>
                 in (case info2 s3 of
                       [] \<Rightarrow> (Inl IndexError, s3)
                     | (l0, r0) # rest \<Rightarrow>
                         let s4 = s3\<lparr>json := Some
                                      \<lparr>tableId = last_segment (q_dobj q0),
                                       schema_columns = colSchema s3,
                                       schema_size = q_nRows q0,
                                       columnNumbers = (case colSelected s3 of None \<Rightarrow> [] | Some ds \<Rightarrow> ds),
                                       subFolder = last_segment (objFormat r0)\<rparr>,
                                    requests := requests s3 @ [Query_citation pid]\<rparr>
                         in (case get_icos_citation env pid of
                               [] \<Rightarrow> (Inl KeyError, s4)
                             | c # cs \<Rightarrow>
                                 (Inr (), s4\<lparr>citation := Some (if c = [] then ''no citation available ...'' else c),
                                             dobjValid := True\<rparr>)))))"

subsection \<open>\<^verbatim>\<open>__getPayload\<close>\<close>

definition getPayload :: "env \<Rightarrow> Dobj \<Rightarrow> (error + unit) \<times> Dobj" where
  "getPayload env s =
     (if \<not> dobjSet s then (Inr (), s)
      else case dobj s of
        None \<Rightarrow> (Inl AttributeError, s)
      | Some pid \<Rightarrow>
          let rows = cpbGetInfo env pid;
              s1 = s\<lparr>info1 := map as_info1 rows,
                     requests := requests s @ [Query_cpbGetInfo pid]\<rparr>
          in case rows of
               [] \<Rightarrow> (Inr (), s1\<lparr>dobjValid := False\<rparr>)
             | q0 # qs \<Rightarrow>
                 let s2 = s1\<lparr>info2 := enumerate (cpbGetSchemaDetail env (q_objSpec q0)),
                             requests := requests s1 @ [Query_cpbGetSchemaDetail (q_objSpec q0)]\<rparr>
                 in case resolve_columns env (q_columnNames q0) s2 of
                      (Inl e, s3) \<Rightarrow> (Inl e, s3)
                    | (Inr u, s3) \<Rightarrow>
                        build_plan env pid q0
                          (s3\<lparr>info2 := sort_key (\<lambda>(l, r). colName r) (info2 s3)\<rparr>))"

subsection \<open>The setter of \<^verbatim>\<open>dobj\<close> and the constructor\<close>

definition set_dobj :: "env \<Rightarrow> string \<Rightarrow> Dobj \<Rightarrow> (error + unit) \<times> Dobj" where
  "set_dobj env digitalObject s =
     (if digitalObject = [] then (Inr (), s\<lparr>dobjSet := False\<rparr>)
      else getPayload env (s\<lparr>dobj := Some digitalObject, dobjSet := True\<rparr>))"

definition init :: "env \<Rightarrow> string \<Rightarrow> (error + unit) \<times> Dobj" where
  "init env digitalObject = set_dobj env digitalObject new_Dobj"

subsection \<open>\<^verbatim>\<open>__setColumns\<close>\<close>

datatype selector = Name string | Index int

text \<open>
  Lines 440 to 448. \<^verbatim>\<open>idx\<close> is assigned only in the two branches; an entry that takes
  neither leaves it as it was, and it does not exist before the first assignment.
\<close>

fun select_loop :: "string list \<Rightarrow> selector list \<Rightarrow> nat option \<Rightarrow> nat list \<Rightarrow> error + nat list" where
  "select_loop names [] idx colSel = Inr colSel"
| "select_loop names (c # cs) idx colSel =
     (let idx' = (case c of
                    Name n \<Rightarrow> if upper n \<in> set names then Some (index_of (upper n) names) else idx
                  | Index k \<Rightarrow> if 0 \<le> k \<and> k < int (length names) then Some (nat k) else idx)
      in case idx' of
           None \<Rightarrow> Inl UnboundLocalError
         | Some i \<Rightarrow> select_loop names cs idx' (if i \<in> set colSel then colSel else colSel @ [i]))"

definition setColumns :: "selector list option \<Rightarrow> Dobj \<Rightarrow> (error + bool) \<times> Dobj" where
  "setColumns columns s =
     (if \<not> dobjValid s then (Inr False, s)
      else case columns of
        None \<Rightarrow> (Inr True, s\<lparr>colSelected := None\<rparr>)
      | Some cols \<Rightarrow>
          (case colNames s of
             None \<Rightarrow> (Inl AttributeError, s)
           | Some names \<Rightarrow>
               (case select_loop (map upper names) cols None [] of
                  Inl e \<Rightarrow> (Inl e, s)
                | Inr sel \<Rightarrow>
                    if sel = [] then (Inr False, s)
                    else (Inr True, s\<lparr>colSelected := Some sel\<rparr>))))"

subsection \<open>\<^verbatim>\<open>__portalUse\<close>\<close>

definition portalUse :: "env \<Rightarrow> Dobj \<Rightarrow> (error + unit) \<times> Dobj" where
  "portalUse env s =
     (case dobj s of
        None \<Rightarrow> (Inl AttributeError, s)
      | Some pid \<Rightarrow>
          (case colNames s of
             None \<Rightarrow> (Inl AttributeError, s)
           | Some names \<Rightarrow>
               let c = \<lparr>objId = pid, counter_columns = names, internal = islocal s\<rparr>;
                   s1 = s\<lparr>requests := requests s @ [Post_portaluse c]\<rparr>
               in if post_portaluse env c then (Inr (), s1) else (Inl ConnectionError, s1)))"

subsection \<open>\<^verbatim>\<open>__unpackRawData\<close>\<close>

text \<open>
  Lines 346 to 351: the run of \<open>rows\<close> scalars of the column at position \<open>idx\<close> of the
  selection, stored under the name of the schema row \<open>col\<close>.
\<close>

fun assemble :: "string list \<Rightarrow> info2_frame \<Rightarrow> nat \<Rightarrow> byte list list \<Rightarrow> (nat \<times> nat) list \<Rightarrow> dataframe \<Rightarrow> error + dataframe" where
  "assemble schema frame rows dat [] df = Inr df"
| "assemble schema frame rows dat ((idx, col) # rest) df =
     (if col < length schema \<and> col < length frame then
        (let lst = take rows (drop (idx * rows) dat);
             cells = (if schema ! col = ''CHAR'' then map Chr lst else map Num lst)
         in case df_setitem (colName (snd (frame ! col))) cells df of
              Inl e \<Rightarrow> Inl e
            | Inr df' \<Rightarrow> assemble schema frame rows dat rest df')
      else Inl IndexError)"

text \<open>Lines 361 to 374.\<close>

definition convert_times :: "bool \<Rightarrow> dataframe \<Rightarrow> dataframe" where
  "convert_times conv df =
     (let df1 = (if ''TIMESTAMP'' \<in> set (map fst df) \<and> conv
                 then df_convert ''TIMESTAMP'' Datetime_ms df else df);
          df2 = (if ''date'' \<in> set (map fst df1) \<and> conv
                 then df_convert ''date'' Datetime_D df1 else df1)
      in if ''time'' \<in> set (map fst df2) \<and> conv
         then df_convert ''time'' Time_of_day df2 else df2)"

text \<open>
  Lines 378 to 379: the table is indexed by the name list only when the cell holds a
  non-empty value. A cell that still holds the string of the query selects the one
  column of that name; \<^verbatim>\<open>__getPayload\<close> leaves no such cell behind.
\<close>

definition reorder :: "colnames \<Rightarrow> dataframe \<Rightarrow> error + dataframe" where
  "reorder cn df =
     (case cn of
        Null \<Rightarrow> Inr df
      | Str cl \<Rightarrow> if cl = [] then Inr df else df_select [cl] df
      | Lst names \<Rightarrow> if names = [] then Inr df else df_select names df)"

definition unpackRawData :: "byte list \<Rightarrow> Dobj \<Rightarrow> (error + dataframe) \<times> Dobj" where
  "unpackRawData rawData s =
     (case dtypeStruct s of
        None \<Rightarrow> (Inl TypeError, s)
      | Some fmt \<Rightarrow>
          (case unpack_from fmt rawData of
             Inl e \<Rightarrow> (Inl e, s)
           | Inr dat \<Rightarrow>
               (case info1 s of
                  [row] \<Rightarrow>
                    (case (case colSelected s of
                             None \<Rightarrow> Inl TypeError
                           | Some sel \<Rightarrow>
                               assemble (colSchema s) (info2 s) (nRows row) dat (enumerate sel) []) of
                       Inl e \<Rightarrow> (Inl (Exception ''_unpackRawData''), s)
                     | Inr df \<Rightarrow>
                         (case reorder (columnNames row) (convert_times (dtconvert s) df) of
                            Inl e \<Rightarrow> (Inl e, s)
                          | Inr df' \<Rightarrow>
                              (Inr df', if datapersistent s then s\<lparr>data := df'\<rparr> else s)))
                | _ \<Rightarrow> (Inl TypeError, s))))"

subsection \<open>\<^verbatim>\<open>__getColumns\<close>\<close>

text \<open>Lines 333 to 335.\<close>

definition track_and_unpack :: "env \<Rightarrow> byte list \<Rightarrow> Dobj \<Rightarrow> (error + dataframe) \<times> Dobj" where
  "track_and_unpack env content s =
     (case portalUse env s of
        (Inl e, s1) \<Rightarrow> (Inl e, s1)
      | (Inr u, s1) \<Rightarrow> unpackRawData content s1)"

text \<open>
  The path of the local file is the concatenation of line 313; \<^verbatim>\<open>os.path.abspath\<close>
  is taken to leave it as it is. \<^verbatim>\<open>raise_for_status\<close> raises on a status from 400 to
  599, which line 331 wraps into a plain exception.
\<close>

definition p_getColumns :: "env \<Rightarrow> Dobj \<Rightarrow> (error + dataframe) \<times> Dobj" where
  "p_getColumns env s =
     (case dobj s of
        None \<Rightarrow> (Inl AttributeError, s)
      | Some pid \<Rightarrow>
          let s1 = s\<lparr>info3 := dobjStation env pid,
                     requests := requests s @ [Query_dobjStation pid]\<rparr>
          in case info2 s1 of
               [] \<Rightarrow> (Inl IndexError, s1)
             | (l0, r0) # rest \<Rightarrow>
                 let localfile = localpath s1 @ last_segment (objFormat r0) @ ''/''
                                   @ last_segment pid @ ''.cpb''
                 in case localfiles env localfile of
                      Some content \<Rightarrow>
                        (case getPayload env
                                (s1\<lparr>islocal := Some True,
                                    requests := requests s1 @ [Read_file localfile],
                                    colSelected := None\<rparr>) of
                           (Inl e, s2) \<Rightarrow> (Inl e, s2)
                         | (Inr u, s2) \<Rightarrow> track_and_unpack env content s2)
                    | None \<Rightarrow>
                        let s2 = s1\<lparr>islocal := Some False,
                                    requests := requests s1 @ [Post_tabular (json s1)]\<rparr>
                        in (case post_tabular env (json s1) of
                              No_response \<Rightarrow> (Inl ConnectionError, s2)
                            | Response status content \<Rightarrow>
                                if 400 \<le> status \<and> status < 600
                                then (Inl (Exception ''HTTPError''), s2)
                                else track_and_unpack env content s2))"

subsection \<open>\<^verbatim>\<open>getColumns\<close>\<close>

text \<open>The public method returns a table or \<^verbatim>\<open>False\<close>.\<close>

datatype answer = Negative | Table dataframe

definition as_answer :: "(error + dataframe) \<times> Dobj \<Rightarrow> (error + answer) \<times> Dobj" where
  "as_answer r = (case r of (Inl e, s) \<Rightarrow> (Inl e, s) | (Inr df, s) \<Rightarrow> (Inr (Table df), s))"

text \<open>\<^verbatim>\<open>not columns\<close>: no argument or an empty list.\<close>

definition falsy :: "selector list option \<Rightarrow> bool" where
  "falsy columns \<longleftrightarrow> columns = None \<or> columns = Some []"

definition getColumns :: "env \<Rightarrow> selector list option \<Rightarrow> Dobj \<Rightarrow> (error + answer) \<times> Dobj" where
  "getColumns env columns s =
     (if \<not> df_empty (data s) \<and> datapersistent s then (Inr (Table (data s)), s)
      else if falsy columns \<and> dobjValid s then as_answer (p_getColumns env s)
      else
        (case (if \<not> falsy columns then
                 (case setColumns columns s of
                    (Inl e, s1) \<Rightarrow> (Inl e, s1)
                  | (Inr ok, s1) \<Rightarrow> if ok then getPayload env s1 else (Inr (), s1))
               else (Inr (), s)) of
           (Inl e, s2) \<Rightarrow> (Inl e, s2)
         | (Inr u, s2) \<Rightarrow>
             if dobjValid s2 then as_answer (p_getColumns env s2) else (Inr Negative, s2)))"

subsection \<open>An example archive\<close>

text \<open>
  One data object, \<open>ex_pid\<close>, is known to the metadata endpoint; every other identifier
  has no metadata. The type mapping table has three formats. Patterns are plain names,
  for which \<^verbatim>\<open>re.match\<close> asks whether the name starts with the pattern. The remote
  endpoint \<open>serve\<close> answers with the bytes of the columns it is asked for.
\<close>

definition ex_pid :: string where
  "ex_pid = ''https://meta.icos-cp.eu/objects/A''"

definition ex_types :: "string \<Rightarrow> string option" where
  "ex_types f =
     (if f = ''int32'' then Some ''INT''
      else if f = ''float64'' then Some ''DOUBLE''
      else if f = ''bmpChar'' then Some ''CHAR''
      else None)"

definition ex_width :: "string \<Rightarrow> nat option" where
  "ex_width k =
     (if k = ''INT'' then Some 4
      else if k = ''DOUBLE'' then Some 8
      else if k = ''CHAR'' then Some 2
      else None)"

definition serve :: "byte list list \<Rightarrow> json_payload option \<Rightarrow> http_result" where
  "serve cols j =
     (case j of
        None \<Rightarrow> Response 400 []
      | Some p \<Rightarrow>
          Response 200
            (concat (map (\<lambda>i. if i < length cols then cols ! i else []) (columnNumbers p))))"

definition ex_env :: "string option \<Rightarrow> info2_row list \<Rightarrow> nat \<Rightarrow> (string \<Rightarrow> byte list option) \<Rightarrow> (json_payload option \<Rightarrow> http_result) \<Rightarrow> bool \<Rightarrow> env" where
  "ex_env cn rows n files remote usage =
     \<lparr>cpbGetInfo = (\<lambda>pid. if pid = ex_pid
                           then [\<lparr>q_dobj = ex_pid, q_objSpec = ''spec'', q_nRows = n,
                                  q_columnNames = cn\<rparr>]
                           else []),
      cpbGetSchemaDetail = (\<lambda>spec. if spec = ''spec'' then rows else []),
      get_icos_citation = (\<lambda>pid. [''cite'']),
      dobjStation = (\<lambda>pid. []),
      re_match = prefix,
      mapDataTypesCP = ex_types,
      structTypes = ex_width,
      localfiles = files,
      post_tabular = remote,
      post_portaluse = (\<lambda>c. usage)\<rparr>"

definition col :: "string \<Rightarrow> string \<Rightarrow> string option \<Rightarrow> info2_row" where
  "col n f r = \<lparr>colName = n, valFormat = f, isRegex = r, objFormat = ''cpmeta/asciiAtcTimeSer''\<rparr>"

definition no_files :: "string \<Rightarrow> byte list option" where
  "no_files path = None"

text \<open>An object of one row and one 32 bit column; the endpoint sends one byte too many.\<close>

definition env_long :: env where
  "env_long = ex_env None [col ''x'' ''int32'' None] 1 no_files
                (\<lambda>j. Response 200 [1, 2, 3, 4, 5]) True"

text \<open>
  An object of one row and two 32 bit columns which the metadata declares as \<open>b\<close>, \<open>a\<close>,
  without a list of realized names; \<open>cached_ab\<close> is its handle after the first data
  access. \<open>other_pid\<close> is an identifier without metadata.
\<close>

definition env_ab :: env where
  "env_ab = ex_env None [col ''b'' ''int32'' None, col ''a'' ''int32'' None] 1 no_files
              (serve [[1, 2, 3, 4], [5, 6, 7, 8]]) True"

definition cached_ab :: Dobj where
  "cached_ab = snd (getColumns env_ab None (snd (init env_ab ex_pid)))"

definition other_pid :: string where
  "other_pid = ''https://meta.icos-cp.eu/objects/B''"

subsection \<open>Notions used in the properties\<close>




text \<open>
  The schema position a selector names: a column name, compared in upper case, or an
  index within the range of the schema; \<open>names\<close> are the column names in upper case.
\<close>

definition resolve :: "string list \<Rightarrow> selector \<Rightarrow> nat option" where
  "resolve names c =
     (case c of
        Name n \<Rightarrow> if upper n \<in> set names then Some (index_of (upper n) names) else None
      | Index k \<Rightarrow> if 0 \<le> k \<and> k < int (length names) then Some (nat k) else None)"

text \<open>The members of a list, each once, in the order of their first occurrence.\<close>

definition add_once :: "'a list \<Rightarrow> 'a \<Rightarrow> 'a list" where
  "add_once acc i = (if i \<in> set acc then acc else acc @ [i])"

definition first_occurrences :: "'a list \<Rightarrow> 'a list" where
  "first_occurrences xs = foldl add_once [] xs"text \<open>
  More of the example archive: the handle of the example object before its first data
  access and the table of the object; an archive whose usage accounting endpoint cannot
  be reached; an archive that holds the object in its local store.
\<close>

definition valid_ab :: Dobj where
  "valid_ab = snd (init env_ab ex_pid)"





text \<open>
  An object with one realized name, \<open>x1\<close>, that two pattern columns match.
\<close>

definition env_dup :: env where
  "env_dup = ex_env (Some ''[\"x1\"]'')
               [col ''x'' ''int32'' (Some ''true''), col ''x1'' ''float64'' (Some ''true'')] 1
               no_files (serve [[1, 2, 3, 4], [1, 2, 3, 4, 5, 6, 7, 8]]) True"

text \<open>
  An object whose list of realized names has \<open>a\<close> and \<open>b\<close>, while the metadata
  declares the column \<open>a\<close> alone.
\<close>

definition env_undeclared :: env where
  "env_undeclared = ex_env (Some ''[\"a\", \"b\"]'') [col ''a'' ''int32'' None] 1
                      no_files (serve [[1, 2, 3, 4]]) True"

text \<open>
  An object of three columns which the metadata declares in the order \<open>b\<close>, \<open>a\<close>,
  \<open>c\<close>, once without and once with a list of realized names in that order, and the
  handles of the two as the constructor leaves them.
\<close>

definition rows_bac :: "info2_row list" where
  "rows_bac = [col ''b'' ''int32'' None, col ''a'' ''int32'' None, col ''c'' ''int32'' None]"

definition bytes_abc :: "byte list list" where
  "bytes_abc = [[1, 1, 1, 1], [2, 2, 2, 2], [3, 3, 3, 3]]"

definition env_bac :: env where
  "env_bac = ex_env None rows_bac 1 no_files (serve bytes_abc) True"

definition env_named :: env where
  "env_named = ex_env (Some ''[\"b\", \"a\", \"c\"]'') rows_bac 1 no_files (serve bytes_abc) True"

definition plain_abc :: Dobj where
  "plain_abc = snd (init env_bac ex_pid)"

definition named_abc :: Dobj where
  "named_abc = snd (init env_named ex_pid)"

definition row_abc :: "colnames \<Rightarrow> info1_row" where
  "row_abc cn = \<lparr>dobj_uri = ex_pid, objSpec = ''spec'', nRows = 1, columnNames = cn\<rparr>"

text \<open>
  Two objects with the realized names \<open>a\<close> and \<open>x1\<close>, a pattern column \<open>x\<close> and a
  declared column \<open>zz\<close> that is not realized; the pattern is declared first in one and
  second in the other.
\<close>

definition env_shift :: env where
  "env_shift = ex_env (Some ''[\"a\", \"x1\"]'')
                 [col ''x'' ''int32'' (Some ''true''), col ''a'' ''int32'' None,
                  col ''zz'' ''int32'' None] 1
                 no_files (serve [[1, 2, 3, 4], [5, 6, 7, 8]]) True"

definition env_gap :: env where
  "env_gap = ex_env (Some ''[\"a\", \"x1\"]'')
               [col ''a'' ''int32'' None, col ''x'' ''int32'' (Some ''true''),
                col ''zz'' ''int32'' None] 1
               no_files (serve [[1, 2, 3, 4], [5, 6, 7, 8]]) True"





section \<open>Properties\<close>

subsection \<open>Assigning an empty identifier\<close>

text \<open>
  C10. Assigning the empty string to the property \<^verbatim>\<open>dobj\<close> returns without an
  exception and changes nothing but the flag \<^verbatim>\<open>_dobjSet\<close>: the identifier set
  before, the validity flag, the column selection and the cached table are what they
  were, and no request (so no metadata query) is sent.
\<close>

theorem set_dobj_empty:
  "set_dobj env [] s = (Inr (), s\<lparr>dobjSet := False\<rparr>)
   \<and> dobj (snd (set_dobj env [] s)) = dobj s
   \<and> dobjValid (snd (set_dobj env [] s)) = dobjValid s
   \<and> colSelected (snd (set_dobj env [] s)) = colSelected s
   \<and> data (snd (set_dobj env [] s)) = data s
   \<and> requests (snd (set_dobj env [] s)) = requests s"
  by (simp add: set_dobj_def)

subsection \<open>Buffers and plans of different lengths\<close>




lemma init_env_long:
  "init env_long ex_pid =
     (Inr (),
      new_Dobj\<lparr>colSelected := Some [0],
               info1 := [\<lparr>dobj_uri = ex_pid, objSpec = ''spec'', nRows = 1, columnNames = Null\<rparr>],
               info2 := [(0, col ''x'' ''int32'' None)],
               colSchema := [''INT''],
               dtypeStruct := Some (''big'', [(1, 4)]),
               json := Some \<lparr>tableId = ''A'', schema_columns = [''INT''], schema_size = 1,
                              columnNumbers = [0], subFolder = ''asciiAtcTimeSer''\<rparr>,
               dobjSet := True, dobjValid := True, citation := Some ''cite'',
               dobj := Some ex_pid,
               requests := [Query_cpbGetInfo ex_pid, Query_cpbGetSchemaDetail ''spec'',
                            Query_citation ex_pid]\<rparr>)"
  by code_simp

lemma length_chunks: "length (chunks n w bs) = n"
  by (induction n arbitrary: bs) auto

lemma length_unpack_tokens: "length (unpack_tokens ts bs) = sum_list (map fst ts)"
  by (induction ts arbitrary: bs) (auto simp: length_chunks)

subsection \<open>The cached table\<close>

lemma cached_ab_eq:
  "cached_ab =
     new_Dobj\<lparr>colSelected := Some [0, 1],
               info1 := [\<lparr>dobj_uri = ex_pid, objSpec = ''spec'', nRows = 1, columnNames = Null\<rparr>],
               info2 := [(1, col ''a'' ''int32'' None), (0, col ''b'' ''int32'' None)],
               colSchema := [''INT'', ''INT''],
               dtypeStruct := Some (''big'', [(1, 4), (1, 4)]),
               json := Some \<lparr>tableId = ''A'', schema_columns = [''INT'', ''INT''], schema_size = 1,
                              columnNumbers = [0, 1], subFolder = ''asciiAtcTimeSer''\<rparr>,
               islocal := Some False,
               dobjSet := True, dobjValid := True, citation := Some ''cite'',
               data := [(''a'', [Num [1, 2, 3, 4]]), (''b'', [Num [5, 6, 7, 8]])],
               dobj := Some ex_pid,
               requests := [Query_cpbGetInfo ex_pid, Query_cpbGetSchemaDetail ''spec'',
                            Query_citation ex_pid, Query_dobjStation ex_pid,
                            Post_tabular (Some \<lparr>tableId = ''A'', schema_columns = [''INT'', ''INT''],
                              schema_size = 1, columnNumbers = [0, 1], subFolder = ''asciiAtcTimeSer''\<rparr>),
                            Post_portaluse \<lparr>objId = ex_pid, counter_columns = [''a'', ''b''],
                              internal = Some False\<rparr>]\<rparr>"
  by code_simp

text \<open>
  C3, as the code has it. With persistence enabled and a cached table that is not
  empty, a data access returns the cached table whatever columns the call names, and
  leaves the handle as it is: the selection is not changed, the cache is not discarded,
  no plan is derived and no request is sent.
\<close>

theorem getColumns_cached:
  "\<not> df_empty (data s) \<and> datapersistent s \<Longrightarrow> getColumns env columns s = (Inr (Table (data s)), s)"
  by (simp add: getColumns_def)

text \<open>The handle \<open>cached_ab\<close> holds a table of two columns.\<close>

theorem getColumns_cached_witness:
  "\<not> df_empty (data cached_ab) \<and> datapersistent cached_ab
   \<and> getColumns env_ab (Some [Index 0]) cached_ab = (Inr (Table (data cached_ab)), cached_ab)"
  using getColumns_cached [of cached_ab env_ab "Some [Index 0]"]
  by (simp add: cached_ab_eq new_Dobj_def df_empty_def)

text \<open>
  C3 as stated fails: the valid handle \<open>cached_ab\<close> has both columns selected and
  cached; the call that selects column 0 alone returns the cached table of both columns.
\<close>

theorem reselect_cached_counterexample:
  "dobjValid cached_ab \<and> datapersistent cached_ab
   \<and> colSelected cached_ab = Some [0, 1]
   \<and> getColumns env_ab (Some [Index 0]) cached_ab =
       (Inr (Table [(''a'', [Num [1, 2, 3, 4]]), (''b'', [Num [5, 6, 7, 8]])]), cached_ab)"
  by (simp add: cached_ab_eq new_Dobj_def df_empty_def getColumns_def)

subsection \<open>An identifier without metadata\<close>

lemma getColumns_invalid:
  "\<not> dobjValid s \<Longrightarrow>
     getColumns env columns s =
       (if \<not> df_empty (data s) \<and> datapersistent s then (Inr (Table (data s)), s)
        else (Inr Negative, s))"
  by (simp add: getColumns_def setColumns_def)

lemma set_dobj_no_rows:
  "cpbGetInfo env pid = [] \<Longrightarrow> pid \<noteq> [] \<Longrightarrow>
     set_dobj env pid s =
       (Inr (), s\<lparr>dobj := Some pid, dobjSet := True, info1 := [],
                  requests := requests s @ [Query_cpbGetInfo pid], dobjValid := False\<rparr>)"
  by (simp add: set_dobj_def getPayload_def)

text \<open>
  C9, as the code has it. Assigning an identifier for which the metadata query returns
  no row makes the handle invalid. A data access on it then sends no request and decodes
  nothing: it leaves the handle as it is and returns the negative result, unless
  persistence is enabled and the handle still caches a table that is not empty (decoded
  under an earlier identifier), which it then returns.
\<close>

theorem no_metadata_invalid:
  assumes "cpbGetInfo env pid = []" and "pid \<noteq> []"
  shows "fst (set_dobj env pid s) = Inr ()
       \<and> \<not> dobjValid (snd (set_dobj env pid s))
       \<and> getColumns env columns (snd (set_dobj env pid s)) =
           (if \<not> df_empty (data s) \<and> datapersistent s
            then (Inr (Table (data s)), snd (set_dobj env pid s))
            else (Inr Negative, snd (set_dobj env pid s)))"
  using assms by (simp add: set_dobj_no_rows getColumns_invalid)

text \<open>A fresh handle, assigned the identifier without metadata.\<close>

theorem no_metadata_invalid_witness:
  "cpbGetInfo env_ab other_pid = [] \<and> other_pid \<noteq> []
   \<and> \<not> dobjValid (snd (set_dobj env_ab other_pid new_Dobj))
   \<and> getColumns env_ab None (snd (set_dobj env_ab other_pid new_Dobj)) =
        (Inr Negative, snd (set_dobj env_ab other_pid new_Dobj))"
  using no_metadata_invalid [of env_ab other_pid new_Dobj None]
  by (simp add: env_ab_def ex_env_def other_pid_def ex_pid_def new_Dobj_def df_empty_def)

text \<open>
  C9 as stated fails: \<open>cached_ab\<close> has decoded the example object; assigned the
  identifier without metadata it is invalid, and the next data access returns the table
  of the example object.
\<close>

theorem invalid_returns_stale_counterexample:
  "cpbGetInfo env_ab other_pid = []
   \<and> fst (set_dobj env_ab other_pid cached_ab) = Inr ()
   \<and> \<not> dobjValid (snd (set_dobj env_ab other_pid cached_ab))
   \<and> fst (getColumns env_ab None (snd (set_dobj env_ab other_pid cached_ab))) =
        Inr (Table [(''a'', [Num [1, 2, 3, 4]]), (''b'', [Num [5, 6, 7, 8]])])"
  by (simp add: cached_ab_eq new_Dobj_def df_empty_def getColumns_def set_dobj_def getPayload_def
        env_ab_def ex_env_def other_pid_def ex_pid_def)

subsection \<open>Usage accounting\<close>









subsection \<open>Local store and remote endpoint\<close>













subsection \<open>Selecting columns\<close>

lemma select_loop_bound:
  "j \<in> set acc \<Longrightarrow>
     select_loop names cs (Some j) acc = Inr (foldl add_once acc (List.map_filter (resolve names) cs))"
proof (induction cs arbitrary: j acc)
  case Nil
  show ?case by simp
next
  case (Cons c cs)
  show ?case
  proof (cases "resolve names c")
    case None
    then have "select_loop names (c # cs) (Some j) acc = select_loop names cs (Some j) acc"
      using Cons.prems by (auto simp: resolve_def split: selector.splits if_splits)
    with Cons.IH [OF Cons.prems] None show ?thesis
      by simp
  next
    case (Some i)
    then have "select_loop names (c # cs) (Some j) acc = select_loop names cs (Some i) (add_once acc i)"
      by (auto simp: resolve_def add_once_def split: selector.splits if_splits)
    moreover have "i \<in> set (add_once acc i)" by (simp add: add_once_def)
    ultimately show ?thesis using Cons.IH [of i "add_once acc i"] Some
      by simp
  qed
qed

lemma select_loop_first:
  assumes "resolve names c = Some i"
  shows "select_loop names (c # cs) None [] =
           Inr (first_occurrences (List.map_filter (resolve names) (c # cs)))"
proof -
  from assms have "select_loop names (c # cs) None [] = select_loop names cs (Some i) [i]"
    by (auto simp: resolve_def split: selector.splits if_splits)
  with select_loop_bound [of i "[i]" names cs] assms show ?thesis
    by (simp add: first_occurrences_def add_once_def)
qed

lemma foldl_add_once_nonempty: "acc \<noteq> [] \<Longrightarrow> foldl add_once acc xs \<noteq> []"
  by (induction xs arbitrary: acc) (auto simp: add_once_def)

lemma first_occurrences_nonempty:
  assumes "xs \<noteq> []"
  shows "first_occurrences xs \<noteq> []"
proof (cases xs)
  case Nil
  with assms show ?thesis by simp
next
  case (Cons x rest)
  have "foldl add_once [x] rest \<noteq> []" by (rule foldl_add_once_nonempty) simp
  with Cons show ?thesis by (simp add: first_occurrences_def add_once_def)
qed

text \<open>
  C6, as the code has it. On a valid handle, a selection list whose first entry names
  a column is applied without its entries that name none (an out-of-range index among
  them): the selection becomes the positions that the entries name, each once, in the
  order of their first occurrence, and the result is \<^verbatim>\<open>True\<close>.
\<close>

theorem setColumns_skips_unresolvable:
  assumes "dobjValid s"
    and "resolve (map upper (map (\<lambda>(l, r). colName r) (info2 s))) c \<noteq> None"
  shows "setColumns (Some (c # cs)) s =
           (Inr True,
            s\<lparr>colSelected := Some (first_occurrences
               (List.map_filter (resolve (map upper (map (\<lambda>(l, r). colName r) (info2 s)))) (c # cs)))\<rparr>)"
proof -
  define names where "names = map upper (map (\<lambda>(l, r). colName r) (info2 s))"
  from assms(2) obtain i where i: "resolve names c = Some i" by (auto simp: names_def)
  then have "List.map_filter (resolve names) (c # cs) \<noteq> []"
    by simp
  from first_occurrences_nonempty [OF this] select_loop_first [OF i, of cs] assms(1)
  show ?thesis by (simp add: setColumns_def colNames_def names_def)
qed

text \<open>A first entry that names no column: \<^verbatim>\<open>idx\<close> is read before it is assigned.\<close>

lemma select_loop_first_unresolvable:
  "resolve names c = None \<Longrightarrow> select_loop names (c # cs) None [] = Inl UnboundLocalError"
  by (auto simp: resolve_def split: selector.splits if_splits)subsection \<open>The properties on the example archive\<close>


lemma valid_ab_facts:
  "dobjValid valid_ab" "colSelected valid_ab = Some [0, 1]" "data valid_ab = []"
  "map (\<lambda>(l, r). colName r) (info2 valid_ab) = [''a'', ''b'']"
  unfolding valid_ab_def by code_simp+






text \<open>A selection by names in either case and by indices, one of them out of range.\<close>

theorem setColumns_skips_unresolvable_witness:
  "dobjValid valid_ab
   \<and> resolve (map upper (map (\<lambda>(l, r). colName r) (info2 valid_ab))) (Name ''b'') \<noteq> None
   \<and> setColumns (Some [Name ''b'', Index 7, Name ''B'', Index 0]) valid_ab =
       (Inr True, valid_ab\<lparr>colSelected := Some [1, 0]\<rparr>)"
  using setColumns_skips_unresolvable [of valid_ab "Name ''b''" "[Index 7, Name ''B'', Index 0]"]
  by (simp add: valid_ab_facts resolve_def upper_def upper_char_def first_occurrences_def add_once_def)

text \<open>
  C6 as stated fails: the example object has two columns and both are selected; the
  selection of index 0 and the out-of-range index 99 is not rejected but returns
  \<^verbatim>\<open>True\<close> and narrows the selection to column 0, and the data access returns the
  table of that column.
\<close>

theorem out_of_range_index_counterexample:
  "colSelected valid_ab = Some [0, 1]
   \<and> length (info2 valid_ab) = 2
   \<and> setColumns (Some [Index 0, Index 99]) valid_ab = (Inr True, valid_ab\<lparr>colSelected := Some [0]\<rparr>)
   \<and> fst (getColumns env_ab (Some [Index 0, Index 99]) valid_ab) = Inr (Table [(''a'', [Num [1, 2, 3, 4]])])"
  unfolding valid_ab_def by code_simp

text \<open>The out-of-range index alone ends in the exception of the unassigned variable.\<close>

lemma unresolvable_first_entry:
  "setColumns (Some [Index 99]) valid_ab = (Inl UnboundLocalError, valid_ab)"
  unfolding valid_ab_def by code_simp

subsection \<open>Pattern columns\<close>

lemma map_snd_filter: "map snd (filter (\<lambda>(l, r). P r) ps) = filter P (map snd ps)"
  by (induction ps) auto

lemma map_snd_enumerate: "map snd (enumerate xs) = xs"
  by (simp add: enumerate_def)

lemma regex_rows_unflagged:
  "filter (\<lambda>r. isRegex r \<noteq> Some ''true'') (regex_rows m rs cl) = regex_rows m rs cl"
  by (rule filter_True) (auto simp: regex_rows_def)

lemma regex_rows_Cons:
  "regex_rows m (r # rs) cl =
     map (\<lambda>c. r\<lparr>colName := c, isRegex := None\<rparr>) (filter (m (colName r)) cl) @ regex_rows m rs cl"
  by (simp add: regex_rows_def)

lemma count_matches:
  "length (filter (\<lambda>x. p x \<and> x = c) cl) = (if p c then count_list cl c else 0)"
  by (induction cl) auto

lemma regex_rows_count:
  "length (filter (\<lambda>x. colName x = c) (regex_rows m rs cl))
     = length (filter (\<lambda>r. m (colName r) c) rs) * count_list cl c"
proof (induction rs)
  case Nil
  show ?case by (simp add: regex_rows_def)
next
  case (Cons r rs)
  then show ?case by (simp add: regex_rows_Cons count_matches)
qed

lemma expand_regex_rows:
  "map snd (expand_regex m cl frame) =
     filter (\<lambda>r. isRegex r \<noteq> Some ''true'') (map snd frame)
     @ regex_rows m (filter (\<lambda>r. isRegex r = Some ''true'') (map snd frame)) cl"
proof (cases "list_all (\<lambda>(l, r). isRegex r = None) frame")
  case True
  then have none: "\<forall>r \<in> set (map snd frame). isRegex r = None"
    by (auto simp: list_all_iff)
  then have "filter (\<lambda>r. isRegex r \<noteq> Some ''true'') (map snd frame) = map snd frame"
    and "filter (\<lambda>r. isRegex r = Some ''true'') (map snd frame) = []"
    by (auto simp: filter_empty_conv intro!: filter_True)
  with True show ?thesis by (simp add: expand_regex_def regex_rows_def)
next
  case False
  show ?thesis
  proof (cases "regex_rows m (filter (\<lambda>r. isRegex r = Some ''true'') (map snd frame)) cl = []")
    case True
    with False show ?thesis
      by (simp add: expand_regex_def Let_def map_snd_filter)
  next
    case new: False
    with False show ?thesis
      by (simp add: expand_regex_def Let_def map_snd_filter map_snd_enumerate regex_rows_unflagged)
  qed
qed

text \<open>
  C7, as the code has it. The frame after the expansion holds the rows that are not
  flagged as patterns, as they were, followed by the rows made from the patterns. Every
  pair of a pattern row and a realized name that the pattern matches makes one row: the
  pattern row with the matched name in place of the pattern and without the flag, its
  declared format kept. Nothing is deduplicated: a name appears among the new rows as
  often as patterns match it, times its occurrences among the realized names; for a
  name that no pattern matches that is zero, and a pattern that matches no name adds
  no row.
\<close>

theorem pattern_expansion:
  "map snd (expand_regex m cl frame) =
     filter (\<lambda>r. isRegex r \<noteq> Some ''true'') (map snd frame)
     @ regex_rows m (filter (\<lambda>r. isRegex r = Some ''true'') (map snd frame)) cl
   \<and> set (regex_rows m rs cl) =
       {r\<lparr>colName := c, isRegex := None\<rparr> | r c. r \<in> set rs \<and> c \<in> set cl \<and> m (colName r) c}
   \<and> length (filter (\<lambda>x. colName x = name) (regex_rows m rs cl))
       = length (filter (\<lambda>r. m (colName r) name) rs) * count_list cl name"
proof (intro conjI)
  show "set (regex_rows m rs cl) =
       {r\<lparr>colName := c, isRegex := None\<rparr> | r c. r \<in> set rs \<and> c \<in> set cl \<and> m (colName r) c}"
    by (auto simp: regex_rows_def)
qed (rule expand_regex_rows, rule regex_rows_count)

text \<open>
  C7 as stated fails: the patterns \<open>x\<close> and \<open>x1\<close> both match the realized name
  \<open>x1\<close>; the expansion makes two rows of that name, and the resolved schema of the
  valid handle has the name twice.
\<close>

theorem pattern_duplicates_counterexample:
  "regex_rows prefix [col ''x'' ''int32'' (Some ''true''), col ''x1'' ''float64'' (Some ''true'')] [''x1'']
     = [col ''x1'' ''int32'' None, col ''x1'' ''float64'' None]
   \<and> fst (init env_dup ex_pid) = Inr ()
   \<and> dobjValid (snd (init env_dup ex_pid))
   \<and> map (\<lambda>(l, r). colName r) (info2 (snd (init env_dup ex_pid))) = [''x1'', ''x1'']"
  by code_simp

subsection \<open>Resolution without patterns\<close>

text \<open>
  While the labels of the frame are the positions of its rows, the loop of lines 249 to
  251 drops exactly the rows whose names are not realized.
\<close>

lemma drop_absent_positions:
  assumes "\<forall>(l, r) \<in> set pre. l < k"
  shows "drop_absent cl (zip [k ..< k + length rs] (map colName rs)) (pre @ zip [k ..< k + length rs] rs)
       = (Inr (), pre @ filter (\<lambda>(l, r). colName r \<in> set cl) (zip [k ..< k + length rs] rs))"
  using assms
proof (induction rs arbitrary: k pre)
  case Nil
  show ?case by simp
next
  case (Cons r rs)
  have upt: "[k ..< k + length (r # rs)] = k # [Suc k ..< Suc k + length rs]"
    by (subst upt_rec) simp
  let ?Z = "zip [Suc k ..< Suc k + length rs] rs"
  show ?case
  proof (cases "colName r \<in> set cl")
    case True
    have "\<forall>(l, r) \<in> set (pre @ [(k, r)]). l < Suc k"
      using Cons.prems by auto
    from Cons.IH [OF this] True upt show ?thesis by simp
  next
    case False
    have later: "\<forall>(l, r) \<in> set ?Z. l \<noteq> k"
      by (auto dest!: set_zip_leftD)
    have earlier: "\<forall>(l, r) \<in> set pre. l \<noteq> k"
      using Cons.prems by auto
    have "filter (\<lambda>(l, r). l \<noteq> k) (pre @ (k, r) # ?Z) = pre @ ?Z"
      using later earlier by (auto intro!: filter_True)
    then have "drop_label k (pre @ (k, r) # ?Z) = Inr (pre @ ?Z)"
      by (simp add: drop_label_def)
    moreover have "\<forall>(l, r) \<in> set pre. l < Suc k"
      using Cons.prems by auto
    ultimately show ?thesis
      using Cons.IH [OF \<open>\<forall>(l, r) \<in> set pre. l < Suc k\<close>] False upt by simp
  qed
qed

lemma drop_absent_enumerate:
  "drop_absent cl (enumerate (map (\<lambda>(l, r). colName r) (enumerate rows))) (enumerate rows)
     = (Inr (), filter (\<lambda>(l, r). colName r \<in> set cl) (enumerate rows))"
proof -
  have "map (\<lambda>(l, r). colName r) (enumerate rows) = map colName (map snd (enumerate rows))"
    by (simp add: case_prod_unfold)
  then have "map (\<lambda>(l, r). colName r) (enumerate rows) = map colName rows"
    by (simp only: map_snd_enumerate)
  with drop_absent_positions [of "[]" 0 cl rows] show ?thesis
    by (simp add: enumerate_def)
qed

lemma expand_regex_no_patterns:
  assumes "list_all (\<lambda>r. isRegex r \<noteq> Some ''true'') (map snd frame)"
  shows "expand_regex m cl frame = frame"
proof -
  from assms have all: "\<forall>(l, r) \<in> set frame. isRegex r \<noteq> Some ''true''"
    by (auto simp: list_all_iff)
  then have "filter (\<lambda>r. isRegex r = Some ''true'') (map snd frame) = []"
    by (auto simp: filter_empty_conv)
  moreover from all have "filter (\<lambda>(l, r). isRegex r \<noteq> Some ''true'') frame = frame"
    by (auto intro!: filter_True)
  ultimately show ?thesis by (simp add: expand_regex_def regex_rows_def)
qed

lemma resolve_columns_no_patterns:
  assumes "list_all (\<lambda>r. isRegex r \<noteq> Some ''true'') rows" and "info2 s = enumerate rows"
  shows "resolve_columns env (Some cl) s =
           (Inr (),
            s\<lparr>info1 := (case info1 s of [] \<Rightarrow> []
                          | row0 # rest \<Rightarrow> row0\<lparr>columnNames := Lst (clean_colList cl)\<rparr> # rest),
              info2 := filter (\<lambda>(l, r). colName r \<in> set (clean_colList cl)) (enumerate rows)\<rparr>)"
proof -
  have "expand_regex (re_match env) (clean_colList cl) (enumerate rows) = enumerate rows"
    using assms(1) by (intro expand_regex_no_patterns) (simp add: map_snd_enumerate)
  with assms(2) drop_absent_enumerate [of "clean_colList cl" rows] show ?thesis
    by (simp add: resolve_columns_def Let_def)
qed

text \<open>
  C2, as the code has it. Resolution compares no realized name with the resolved
  schema and has no failure of its own. For an identifier with metadata, a list of
  realized names and no column flagged as a pattern, \<^verbatim>\<open>__getPayload\<close> goes on to
  build the plan, with the cleaned list as the realized names and, as the schema, the
  declared columns whose names are realized, sorted by name: a realized name that no
  column declares is not in the schema, a name that several columns declare is there as
  often as it is declared, and only the plan building decides whether the handle
  becomes valid.
\<close>

theorem resolution_without_validation:
  assumes "dobjSet s" and "dobj s = Some pid" and "cpbGetInfo env pid = q0 # qs"
    and "q_columnNames q0 = Some cl"
    and "list_all (\<lambda>r. isRegex r \<noteq> Some ''true'') (cpbGetSchemaDetail env (q_objSpec q0))"
  shows "getPayload env s =
           build_plan env pid q0
             (s\<lparr>requests := requests s @ [Query_cpbGetInfo pid, Query_cpbGetSchemaDetail (q_objSpec q0)],
                info1 := (as_info1 q0)\<lparr>columnNames := Lst (clean_colList cl)\<rparr> # map as_info1 qs,
                info2 := sort_key (\<lambda>(l, r). colName r)
                           (filter (\<lambda>(l, r). colName r \<in> set (clean_colList cl))
                              (enumerate (cpbGetSchemaDetail env (q_objSpec q0))))\<rparr>)"
proof -
  define s2 where "s2 = s\<lparr>info1 := map as_info1 (q0 # qs),
          requests := requests s @ [Query_cpbGetInfo pid],
          info2 := enumerate (cpbGetSchemaDetail env (q_objSpec q0)),
          requests := requests s @ [Query_cpbGetInfo pid] @ [Query_cpbGetSchemaDetail (q_objSpec q0)]\<rparr>"
  have "info2 s2 = enumerate (cpbGetSchemaDetail env (q_objSpec q0))"
    by (simp add: s2_def)
  from resolve_columns_no_patterns [OF assms(5) this, of env cl]
  have "resolve_columns env (Some cl) s2 =
           (Inr (),
            s2\<lparr>info1 := (as_info1 q0)\<lparr>columnNames := Lst (clean_colList cl)\<rparr> # map as_info1 qs,
              info2 := filter (\<lambda>(l, r). colName r \<in> set (clean_colList cl))
                         (enumerate (cpbGetSchemaDetail env (q_objSpec q0)))\<rparr>)"
    by (simp add: s2_def)
  with assms(1-4) show ?thesis
    unfolding getPayload_def s2_def by (simp add: Let_def)
qed

text \<open>The object with the undeclared name \<open>b\<close>.\<close>

theorem resolution_without_validation_witness:
  "dobjSet (new_Dobj\<lparr>dobj := Some ex_pid, dobjSet := True\<rparr>)
   \<and> cpbGetInfo env_undeclared ex_pid =
       [\<lparr>q_dobj = ex_pid, q_objSpec = ''spec'', q_nRows = 1, q_columnNames = Some ''[\"a\", \"b\"]''\<rparr>]
   \<and> list_all (\<lambda>r. isRegex r \<noteq> Some ''true'') (cpbGetSchemaDetail env_undeclared ''spec'')
   \<and> getPayload env_undeclared (new_Dobj\<lparr>dobj := Some ex_pid, dobjSet := True\<rparr>) =
        build_plan env_undeclared ex_pid
          \<lparr>q_dobj = ex_pid, q_objSpec = ''spec'', q_nRows = 1, q_columnNames = Some ''[\"a\", \"b\"]''\<rparr>
          (new_Dobj\<lparr>dobj := Some ex_pid, dobjSet := True,
             info1 := [\<lparr>dobj_uri = ex_pid, objSpec = ''spec'', nRows = 1, columnNames = Lst [''a'', ''b'']\<rparr>],
             info2 := [(0, col ''a'' ''int32'' None)],
             requests := [Query_cpbGetInfo ex_pid, Query_cpbGetSchemaDetail ''spec'']\<rparr>)"
  using resolution_without_validation [of "new_Dobj\<lparr>dobj := Some ex_pid, dobjSet := True\<rparr>" ex_pid
      env_undeclared "\<lparr>q_dobj = ex_pid, q_objSpec = ''spec'', q_nRows = 1, q_columnNames = Some ''[\"a\", \"b\"]''\<rparr>"
      "[]" "''[\"a\", \"b\"]''"]
  by (simp add: env_undeclared_def ex_env_def new_Dobj_def as_info1_def col_def enumerate_def
      clean_colList_def strip_def is_space_def)

text \<open>
  C2 as stated fails: the realized name \<open>b\<close> is missing from the resolved schema, yet
  the constructor returns without an exception, the handle is valid and has a plan; the
  first data access then ends in a KeyError when the table is indexed by the realized
  names.
\<close>

theorem undeclared_name_counterexample:
  "clean_colList ''[\"a\", \"b\"]'' = [''a'', ''b'']
   \<and> fst (init env_undeclared ex_pid) = Inr ()
   \<and> dobjValid (snd (init env_undeclared ex_pid))
   \<and> map (\<lambda>(l, r). colName r) (info2 (snd (init env_undeclared ex_pid))) = [''a'']
   \<and> dtypeStruct (snd (init env_undeclared ex_pid)) = Some (''big'', [(1, 4)])
   \<and> fst (getColumns env_undeclared None (snd (init env_undeclared ex_pid))) = Inl KeyError"
  by code_simp

text \<open>
  With a pattern column the labels are no longer the positions when the loop of lines
  249 to 251 runs, and the loop drops by position: in the first object it drops the
  realized column \<open>a\<close> in place of \<open>zz\<close>, in the second it asks for a label that
  the frame does not have.
\<close>

lemma drop_by_position_examples:
  "fst (init env_shift ex_pid) = Inr ()
   \<and> dobjValid (snd (init env_shift ex_pid))
   \<and> map (\<lambda>(l, r). colName r) (info2 (snd (init env_shift ex_pid))) = [''x1'', ''zz'']
   \<and> fst (init env_gap ex_pid) = Inl KeyError"
  by code_simp

subsection \<open>The order of the columns\<close>

lemma df_setitem_names: "df_setitem k v df = Inr df' \<Longrightarrow> map fst df' = add_once (map fst df) k"
  by (cases df) (auto simp: df_setitem_def add_once_def case_prod_unfold split: if_splits)

lemma assemble_names:
  "assemble schema frame rows dat todo df = Inr df' \<Longrightarrow>
     map fst df' = foldl add_once (map fst df) (map (\<lambda>(idx, c). colName (snd (frame ! c))) todo)"
proof (induction todo arbitrary: df)
  case Nil
  then show ?case by simp
next
  case (Cons t todo)
  obtain idx c where t: "t = (idx, c)" by (cases t)
  from Cons.prems t obtain df1 where
    set: "df_setitem (colName (snd (frame ! c)))
            (if schema ! c = ''CHAR'' then map Chr (take rows (drop (idx * rows) dat))
             else map Num (take rows (drop (idx * rows) dat))) df = Inr df1"
    and rest: "assemble schema frame rows dat todo df1 = Inr df'"
    by (auto simp: Let_def split: if_splits sum.splits)
  from Cons.IH [OF rest] df_setitem_names [OF set] t show ?case by simp
qed

lemma df_convert_names: "map fst (df_convert k f df) = map fst df"
  by (induction df) (auto simp: df_convert_def)

lemma convert_times_names: "map fst (convert_times conv df) = map fst df"
  by (simp add: convert_times_def Let_def df_convert_names)

lemma df_select_names: "df_select ks df = Inr df' \<Longrightarrow> map fst df' = ks"
  by (induction ks arbitrary: df') (auto split: option.splits sum.splits)

lemma map_enumerate_snd: "map (\<lambda>(idx, c). g c) (enumerate xs) = map g xs"
proof -
  have "map (\<lambda>(idx, c). g c) (enumerate xs) = map g (map snd (enumerate xs))"
    by (simp add: case_prod_unfold)
  then show ?thesis by (simp only: map_snd_enumerate)
qed

text \<open>
  C8, as the code has it. A table that \<^verbatim>\<open>__unpackRawData\<close> returns has its columns
  in the order of the list of realized names (the declared order) when the metadata
  carries such a list, not empty; the table is reordered only then. When the metadata
  carries no list, the columns stay as they were assembled: the names of the selected
  schema rows in the order of the selection, each once, which for the default selection
  is the name-sorted wire order.
\<close>

theorem column_order:
  assumes "unpackRawData raw s = (Inr df, s')" and "info1 s = [row]" and "colSelected s = Some sel"
  shows "(columnNames row = Lst names \<and> names \<noteq> [] \<longrightarrow> map fst df = names)
       \<and> (columnNames row = Null \<longrightarrow>
            map fst df = first_occurrences (map (\<lambda>c. colName (snd (info2 s ! c))) sel))"
proof -
  from assms obtain fmt dat df0 where
    asm: "assemble (colSchema s) (info2 s) (nRows row) dat (enumerate sel) [] = Inr df0"
    and re: "reorder (columnNames row) (convert_times (dtconvert s) df0) = Inr df"
    by (auto simp: unpackRawData_def split: option.splits sum.splits)
  from assemble_names [OF asm]
  have names0: "map fst (convert_times (dtconvert s) df0)
                  = first_occurrences (map (\<lambda>c. colName (snd (info2 s ! c))) sel)"
    by (simp add: convert_times_names first_occurrences_def map_enumerate_snd)
  show ?thesis
  proof (intro conjI impI)
    assume "columnNames row = Lst names \<and> names \<noteq> []"
    with re have "df_select names (convert_times (dtconvert s) df0) = Inr df"
      by (simp add: reorder_def)
    then show "map fst df = names" by (rule df_select_names)
  next
    assume "columnNames row = Null"
    with re have "df = convert_times (dtconvert s) df0" by (simp add: reorder_def)
    with names0 show "map fst df = first_occurrences (map (\<lambda>c. colName (snd (info2 s ! c))) sel)"
      by simp
  qed
qed

text \<open>The two example handles and the tables decoded from the same twelve bytes.\<close>

lemma abc_handles:
  "info1 named_abc = [row_abc (Lst [''b'', ''a'', ''c''])]"
  "info1 plain_abc = [row_abc Null]"
  "colSelected named_abc = Some [0, 1, 2]"
  "colSelected plain_abc = Some [0, 1, 2]"
  "map (\<lambda>(l, r). colName r) (info2 plain_abc) = [''a'', ''b'', ''c'']"
  by code_simp+

lemma unpack_abc:
  "unpackRawData (concat bytes_abc) named_abc =
     (Inr [(''b'', [Num [2, 2, 2, 2]]), (''a'', [Num [1, 1, 1, 1]]), (''c'', [Num [3, 3, 3, 3]])],
      named_abc\<lparr>data := [(''b'', [Num [2, 2, 2, 2]]), (''a'', [Num [1, 1, 1, 1]]),
                         (''c'', [Num [3, 3, 3, 3]])]\<rparr>)"
  "unpackRawData (concat bytes_abc) plain_abc =
     (Inr [(''a'', [Num [1, 1, 1, 1]]), (''b'', [Num [2, 2, 2, 2]]), (''c'', [Num [3, 3, 3, 3]])],
      plain_abc\<lparr>data := [(''a'', [Num [1, 1, 1, 1]]), (''b'', [Num [2, 2, 2, 2]]),
                         (''c'', [Num [3, 3, 3, 3]])]\<rparr>)"
  by code_simp+

text \<open>With the list of names the table is ordered \<open>b\<close>, \<open>a\<close>, \<open>c\<close>, without it \<open>a\<close>, \<open>b\<close>, \<open>c\<close>.\<close>

theorem column_order_witness:
  "info1 named_abc = [row_abc (Lst [''b'', ''a'', ''c''])]
   \<and> colSelected named_abc = Some [0, 1, 2]
   \<and> fst (unpackRawData (concat bytes_abc) named_abc) =
        Inr [(''b'', [Num [2, 2, 2, 2]]), (''a'', [Num [1, 1, 1, 1]]), (''c'', [Num [3, 3, 3, 3]])]
   \<and> info1 plain_abc = [row_abc Null]
   \<and> colSelected plain_abc = Some [0, 1, 2]
   \<and> fst (unpackRawData (concat bytes_abc) plain_abc) =
        Inr [(''a'', [Num [1, 1, 1, 1]]), (''b'', [Num [2, 2, 2, 2]]), (''c'', [Num [3, 3, 3, 3]])]
   \<and> first_occurrences (map (\<lambda>c. colName (snd (info2 plain_abc ! c))) [0, 1, 2]) = [''a'', ''b'', ''c'']"
  using column_order [OF unpack_abc(1) abc_handles(1) abc_handles(3), of "[''b'', ''a'', ''c'']"]
    column_order [OF unpack_abc(2) abc_handles(2) abc_handles(4)]
  by (simp add: unpack_abc abc_handles row_abc_def)

text \<open>
  C8 as stated fails twice. The metadata declares \<open>b\<close>, \<open>a\<close>, \<open>c\<close> and carries no
  list of realized names: the table comes in the sorted order \<open>a\<close>, \<open>b\<close>, \<open>c\<close>. The
  metadata carries the list \<open>b\<close>, \<open>a\<close>, \<open>c\<close> and column 0 alone is selected: the data
  access returns no table but ends in a KeyError, since the table of the one column is
  indexed by all three names.
\<close>

theorem declared_order_counterexample:
  "map colName (cpbGetSchemaDetail env_bac ''spec'') = [''b'', ''a'', ''c'']
   \<and> fst (getColumns env_bac None plain_abc) =
        Inr (Table [(''a'', [Num [1, 1, 1, 1]]), (''b'', [Num [2, 2, 2, 2]]), (''c'', [Num [3, 3, 3, 3]])])
   \<and> clean_colList ''[\"b\", \"a\", \"c\"]'' = [''b'', ''a'', ''c'']
   \<and> fst (getColumns env_named (Some [Index 0]) named_abc) = Inl KeyError"
  by code_simp

subsection \<open>Decoding by the plan\<close>




















end
